theory Spec2Isabelle
  imports Complex_Main "HOL-Library.Sublist" "HOL-Library.AList"
    "HOL-Library.Char_ord" "HOL-Library.List_Lexorder"
begin

section \<open>Array samples and the numpy primitives the scripts call\<close>

text \<open>
  \<^verbatim>\<open>RGB-NDSI.py\<close> works on numpy arrays. A sample read from a raster file is a
  number; the result of a numpy floating-point operation is a number, an infinity or
  NaN (numpy does not raise on a division by zero, it stores the special value and
  goes on). Numbers are modelled as reals: the rounding of 64-bit floats, the overflow
  of finite values, the wrap-around of integer sample types and the sign of zero are not
  modelled (Sentinel-2 bands are unsigned 16-bit integers, for which neither subtraction
  of \<^verbatim>\<open>normalize_band\<close> can wrap). A zero divisor is taken as the positive zero,
  which is what \<^verbatim>\<open>band_max - band_min\<close> yields when both are equal.
\<close>

datatype sample = Val real | PosInf | NegInf | NaN

type_synonym band = "sample list list"

type_synonym image = "sample list list list"

text \<open>What a raster file stores: one grid of numbers per band, in stack order.\<close>

type_synonym grid = "real list list"

type_synonym raster = "grid list"

datatype error =
  ValueError | IndexError | ZeroDivisionError | RasterioIOError | ShapeMismatch

text \<open>
  A statement that raises ends the script: the rest of a sequence runs only on the
  value of a step that did not raise.
\<close>

definition ebind :: "error + 'a \<Rightarrow> ('a \<Rightarrow> error + 'b) \<Rightarrow> error + 'b" where
  "ebind m f = (case m of Inl e \<Rightarrow> Inl e | Inr x \<Rightarrow> f x)"

text \<open>Elementwise \<^verbatim>\<open>a - b\<close>.\<close>

fun np_subtract :: "sample \<Rightarrow> sample \<Rightarrow> sample" where
  "np_subtract NaN y = NaN"
| "np_subtract x NaN = NaN"
| "np_subtract (Val a) (Val b) = Val (a - b)"
| "np_subtract (Val a) PosInf = NegInf"
| "np_subtract (Val a) NegInf = PosInf"
| "np_subtract PosInf PosInf = NaN"
| "np_subtract PosInf y = PosInf"
| "np_subtract NegInf NegInf = NaN"
| "np_subtract NegInf y = NegInf"

text \<open>Elementwise \<^verbatim>\<open>a / b\<close> (numpy's true division): \<^verbatim>\<open>0 / 0\<close> is NaN.\<close>

fun np_divide :: "sample \<Rightarrow> sample \<Rightarrow> sample" where
  "np_divide NaN y = NaN"
| "np_divide x NaN = NaN"
| "np_divide (Val a) (Val b) =
     (if b \<noteq> 0 then Val (a / b)
      else if a = 0 then NaN
      else if 0 < a then PosInf else NegInf)"
| "np_divide (Val a) y = Val 0"
| "np_divide PosInf (Val b) = (if 0 \<le> b then PosInf else NegInf)"
| "np_divide NegInf (Val b) = (if 0 \<le> b then NegInf else PosInf)"
| "np_divide x y = NaN"

text \<open>\<^verbatim>\<open>np.minimum\<close> and \<^verbatim>\<open>np.maximum\<close>: NaN wins over every number.\<close>

fun np_minimum :: "sample \<Rightarrow> sample \<Rightarrow> sample" where
  "np_minimum NaN y = NaN"
| "np_minimum x NaN = NaN"
| "np_minimum NegInf y = NegInf"
| "np_minimum x NegInf = NegInf"
| "np_minimum PosInf y = y"
| "np_minimum x PosInf = x"
| "np_minimum (Val a) (Val b) = Val (min a b)"

fun np_maximum :: "sample \<Rightarrow> sample \<Rightarrow> sample" where
  "np_maximum NaN y = NaN"
| "np_maximum x NaN = NaN"
| "np_maximum PosInf y = PosInf"
| "np_maximum x PosInf = PosInf"
| "np_maximum NegInf y = y"
| "np_maximum x NegInf = x"
| "np_maximum (Val a) (Val b) = Val (max a b)"

text \<open>
  \<^verbatim>\<open>band.min()\<close> and \<^verbatim>\<open>band.max()\<close>: the reduction over all samples of the
  array; numpy raises ValueError on an array without samples.
\<close>

definition amin :: "band \<Rightarrow> error + sample" where
  "amin b = (case concat b of [] \<Rightarrow> Inl ValueError | x # xs \<Rightarrow> Inr (fold np_minimum xs x))"

definition amax :: "band \<Rightarrow> error + sample" where
  "amax b = (case concat b of [] \<Rightarrow> Inl ValueError | x # xs \<Rightarrow> Inr (fold np_maximum xs x))"

text \<open>Array times a Python number.\<close>

fun np_multiply :: "sample \<Rightarrow> real \<Rightarrow> sample" where
  "np_multiply (Val a) k = Val (a * k)"
| "np_multiply NaN k = NaN"
| "np_multiply PosInf k = (if 0 < k then PosInf else if k < 0 then NegInf else NaN)"
| "np_multiply NegInf k = (if 0 < k then NegInf else if k < 0 then PosInf else NaN)"

text \<open>\<^verbatim>\<open>np.clip(x, lo, hi)\<close> is \<^verbatim>\<open>minimum(maximum(x, lo), hi)\<close>; NaN stays NaN.\<close>

definition np_clip :: "sample \<Rightarrow> real \<Rightarrow> real \<Rightarrow> sample" where
  "np_clip x lo hi = np_minimum (np_maximum x (Val lo)) (Val hi)"

text \<open>\<^verbatim>\<open>np.power(x, p)\<close> for a Python number \<open>p\<close>.\<close>

definition np_power :: "sample \<Rightarrow> real \<Rightarrow> sample" where
  "np_power x p =
     (if p = 0 then Val 1
      else case x of
        NaN \<Rightarrow> NaN
      | Val a \<Rightarrow>
          if 0 < a then Val (a powr p)
          else if a = 0 then (if 0 < p then Val 0 else PosInf)
          else if real_of_int \<lfloor>p\<rfloor> = p
            then Val ((if even \<lfloor>p\<rfloor> then 1 else - 1) * (\<bar>a\<bar> powr p))
            else NaN
      | PosInf \<Rightarrow> if 0 < p then PosInf else Val 0
      | NegInf \<Rightarrow>
          if 0 < p then (if real_of_int \<lfloor>p\<rfloor> = p \<and> odd \<lfloor>p\<rfloor> then NegInf else PosInf)
          else Val 0)"

text \<open>
  \<^verbatim>\<open>np.stack([a, b, c], axis=-1)\<close>: the three arrays must have one shape (ValueError
  otherwise); pixel \<open>(i, j)\<close> of the result is the triple of the three samples there.
\<close>

definition shape :: "'a list list \<Rightarrow> nat list" where
  "shape g = map length g"

definition np_stack :: "band \<Rightarrow> band \<Rightarrow> band \<Rightarrow> error + image" where
  "np_stack a b c =
     (if shape a = shape b \<and> shape b = shape c
      then Inr (map (\<lambda>(ra, rb, rc). map (\<lambda>(x, y, z). [x, y, z]) (zip ra (zip rb rc)))
                  (zip a (zip b c)))
      else Inl ValueError)"

section \<open>The Composite Renderer's functions\<close>

text \<open>
  \<^verbatim>\<open>def normalize_band(band):
      band_min, band_max = band.min(), band.max()
      return (band - band_min) / (band_max - band_min)\<close>
  The script defines the function twice (lines 144 and 204) with the same body.
\<close>

definition normalize_band :: "band \<Rightarrow> error + band" where
  "normalize_band band =
     ebind (amin band) (\<lambda>band_min.
     ebind (amax band) (\<lambda>band_max.
       Inr (map (map (\<lambda>x. np_divide (np_subtract x band_min)
                                    (np_subtract band_max band_min))) band)))"

text \<open>
  \<^verbatim>\<open>def apply_brightness_gamma(rgb_image, brightness_factor=1, gamma=2):
      brightened = np.clip(rgb_image * brightness_factor, 0, 1)
      corrected = np.power(brightened, 1 / gamma)
      return corrected\<close>
  An argument the caller leaves out is \<open>None\<close> and takes the default of the signature.
  \<^verbatim>\<open>1 / gamma\<close> is a division of Python numbers, which raises on zero.
\<close>

definition apply_brightness_gamma :: "image \<Rightarrow> real option \<Rightarrow> real option \<Rightarrow> error + image" where
  "apply_brightness_gamma rgb_image bf g =
     (let brightness_factor = (case bf of None \<Rightarrow> 1 | Some v \<Rightarrow> v);
          gamma = (case g of None \<Rightarrow> 2 | Some v \<Rightarrow> v);
          brightened = map (map (map (\<lambda>x. np_clip (np_multiply x brightness_factor) 0 1))) rgb_image
      in if gamma = 0 then Inl ZeroDivisionError
         else Inr (map (map (map (\<lambda>x. np_power x (1 / gamma)))) brightened))"

text \<open>
  \<^verbatim>\<open>src.read(i)\<close>: band \<open>i\<close> of the opened raster, counted from 1; rasterio raises
  IndexError for an index outside the stack.
\<close>

definition read :: "raster \<Rightarrow> nat \<Rightarrow> error + band" where
  "read src i =
     (if 1 \<le> i \<and> i \<le> length src then Inr (map (map Val) (src ! (i - 1)))
      else Inl IndexError)"

text \<open>
  The body of the true-color loop (lines 162 to 179): the array handed to
  \<^verbatim>\<open>plt.imsave\<close>. The encoding of that array as an 8-bit PNG is matplotlib's and is
  not modelled.
\<close>

definition true_color :: "raster \<Rightarrow> error + image" where
  "true_color src =
     ebind (read src 3) (\<lambda>red.
     ebind (read src 2) (\<lambda>green.
     ebind (read src 1) (\<lambda>blue.
     ebind (normalize_band red) (\<lambda>red_normalized.
     ebind (normalize_band green) (\<lambda>green_normalized.
     ebind (normalize_band blue) (\<lambda>blue_normalized.
     ebind (np_stack red_normalized green_normalized blue_normalized) (\<lambda>rgb_image.
       apply_brightness_gamma rgb_image (Some (12 / 10)) (Some (22 / 10)))))))))"

text \<open>The body of the false-color loop (lines 214 to 226).\<close>

definition false_color :: "raster \<Rightarrow> error + image" where
  "false_color src =
     ebind (read src 4) (\<lambda>nir.
     ebind (read src 3) (\<lambda>red.
     ebind (read src 2) (\<lambda>green.
     ebind (normalize_band nir) (\<lambda>nir_normalized.
     ebind (normalize_band red) (\<lambda>red_normalized.
     ebind (normalize_band green) (\<lambda>green_normalized.
       np_stack nir_normalized red_normalized green_normalized))))))"

section \<open>The words of the specification for the true-color pixel\<close>

text \<open>
  Min-max scaling of one sample \<open>x\<close> of a band grid \<open>B\<close>, and the tone mapping with
  the pipeline's constants (clip the product with the brightness factor 1.2 to
  \<open>[0, 1]\<close>, raise to the power \<open>1 / 2.2\<close>), both over the reals. The renderer is
  compared with them.
\<close>

definition spec_normalize :: "grid \<Rightarrow> real \<Rightarrow> real" where
  "spec_normalize B x =
     (x - Min (set (concat B))) / (Max (set (concat B)) - Min (set (concat B)))"

definition spec_tone_map :: "real \<Rightarrow> real" where
  "spec_tone_map v = (min 1 (max 0 (v * (12 / 10)))) powr (1 / (22 / 10))"

section \<open>Strings and paths\<close>


text \<open>\<^verbatim>\<open>s.endswith(t)\<close>.\<close>

definition endswith :: "string \<Rightarrow> string \<Rightarrow> bool" where
  "endswith s t = suffix t s"

text \<open>\<^verbatim>\<open>os.path.join(a, b)\<close> with \<open>/\<close> as the separator.\<close>

definition path_join :: "string \<Rightarrow> string \<Rightarrow> string" where
  "path_join a b =
     (if prefix ''/'' b then b
      else if a = [] \<or> endswith a ''/'' then a @ b
      else a @ ''/'' @ b)"

section \<open>The directories of the pipeline\<close>

text \<open>
  The scripts read and write four directories at fixed places: \<^verbatim>\<open>data/Sentinel\<close>
  (one folder per month, holding the band files), \<^verbatim>\<open>Results\<close> (the multi-band
  rasters), \<^verbatim>\<open>Results/RGB\<close> and \<^verbatim>\<open>Results/FalseColor\<close> (the images). A
  directory is the list of its entries by name; a lookup takes the first entry of a
  name. The script is run from its own directory, so that \<^verbatim>\<open>./Results\<close> of the
  renderer is the \<^verbatim>\<open>Results\<close> folder the compositor writes. The entries of
  \<^verbatim>\<open>Results\<close> listed here are those other than the two image folders, whose names
  do not end in \<^verbatim>\<open>.tif\<close>. Creating the output directories is not modelled.
\<close>

datatype band_file = Jp2 grid | Unreadable

datatype month_entry = PlainFile | MonthDir "(string \<times> band_file) list"

datatype results_entry = Tif raster | NotRaster

record world =
  sentinel :: "(string \<times> month_entry) list"
  results :: "(string \<times> results_entry) list"
  rgb_dir :: "(string \<times> image) list"
  falsecolor_dir :: "(string \<times> image) list"
  stdout :: "string list"


text \<open>\<^verbatim>\<open>for x in xs: body\<close>, where a body that raises ends the script.\<close>

fun for_each :: "('a \<Rightarrow> 's \<Rightarrow> error + 's) \<Rightarrow> 'a list \<Rightarrow> 's \<Rightarrow> error + 's" where
  "for_each body [] s = Inr s"
| "for_each body (x # xs) s = ebind (body x s) (for_each body xs)"

definition print :: "string \<Rightarrow> world \<Rightarrow> world" where
  "print line w = w\<lparr>stdout := stdout w @ [line]\<rparr>"

section \<open>The Band Compositor (lines 92 to 132)\<close>

definition bands :: "string list" where
  "bands = [''B2.jp2'', ''B3.jp2'', ''B4.jp2'', ''B8.jp2'', ''B11.jp2'']"

text \<open>
  The inner loop over \<^verbatim>\<open>bands\<close> (lines 104 to 110): a band file that exists in the
  month folder is appended to \<^verbatim>\<open>band_paths\<close>, a missing one is reported. A path
  in \<^verbatim>\<open>band_paths\<close> is kept as the name of the band file in the month folder.
\<close>

fun find_bands ::
  "(string \<times> band_file) list \<Rightarrow> string \<Rightarrow> string list \<Rightarrow> string list \<times> world \<Rightarrow> string list \<times> world"
where
  "find_bands dir month_folder [] (band_paths, w) = (band_paths, w)"
| "find_bands dir month_folder (band_file # rest) (band_paths, w) =
     (if map_of dir band_file \<noteq> None
      then find_bands dir month_folder rest (band_paths @ [band_file], w)
      else find_bands dir month_folder rest
             (band_paths, print (''Warning: '' @ band_file @ '' not found in '' @ month_folder) w))"

text \<open>\<^verbatim>\<open>rasterio.open(band_path)\<close> followed by \<^verbatim>\<open>src.read(1)\<close>.\<close>

definition open_band :: "(string \<times> band_file) list \<Rightarrow> string \<Rightarrow> error + grid" where
  "open_band dir band_path =
     (case map_of dir band_path of Some (Jp2 g) \<Rightarrow> Inr g | _ \<Rightarrow> Inl RasterioIOError)"

text \<open>
  The loop that writes the bands into the new raster (lines 125 to 128), whose width
  and height are those of the first band. What GDAL does with an array of another
  shape is not modelled: the model stops there with \<open>ShapeMismatch\<close>.
\<close>

fun write_bands ::
  "(string \<times> band_file) list \<Rightarrow> nat list \<Rightarrow> string list \<Rightarrow> raster \<Rightarrow> error + raster"
where
  "write_bands dir meta [] dst = Inr dst"
| "write_bands dir meta (band_path # rest) dst =
     ebind (open_band dir band_path) (\<lambda>src.
       if shape src = meta then write_bands dir meta rest (dst @ [src])
       else Inl ShapeMismatch)"

text \<open>The body of the loop over the month folders (lines 99 to 130).\<close>

definition stack_month :: "string \<Rightarrow> string \<Rightarrow> world \<Rightarrow> error + world" where
  "stack_month script_dir month_folder w =
     (case map_of (sentinel w) month_folder of
        Some (MonthDir dir) \<Rightarrow>
          (case find_bands dir month_folder bands ([], w) of (band_paths, w1) \<Rightarrow>
             if length band_paths \<noteq> length bands
             then Inr (print (''Skipping '' @ month_folder @ '' due to missing bands'') w1)
             else
               let output_tiff =
                     path_join (path_join script_dir ''Results'') (month_folder @ ''.tif'')
               in ebind (open_band dir (band_paths ! 0)) (\<lambda>src0.
                  ebind (write_bands dir (shape src0) band_paths []) (\<lambda>dst.
                    Inr (print (''Created '' @ output_tiff)
                           (w1\<lparr>results :=
                                 AList.update (month_folder @ ''.tif'') (Tif dst) (results w1)\<rparr>)))))
      | _ \<Rightarrow> Inr w)"


section \<open>The Composite Renderer's loops (lines 157 to 192 and 209 to 239)\<close>






section \<open>The Viewer (App.py, lines 87 to 102)\<close>


definition month_names :: "string list" where
  "month_names =
     [''January'', ''February'', ''March'', ''April'', ''May'', ''June'', ''July'',
      ''August'', ''September'', ''October'', ''November'', ''December'']"

text \<open>
  What the page shows: text, and images given by the path handed to \<^verbatim>\<open>st.image\<close>.
  The paths of \<^verbatim>\<open>App.py\<close> are written with backslashes.
\<close>

datatype element = Write string | Picture string

record page =
  sidebar :: "element list"
  body :: "element list"
  col1 :: "element list"
  col2 :: "element list"



section \<open>Notions the statements use\<close>






section \<open>Reductions over arrays of numbers\<close>

lemma fold_np_minimum_Val:
  "fold np_minimum (map Val rs) (Val r) = Val (fold min rs r)"
  by (induction rs arbitrary: r) (simp_all add: min.commute)

lemma fold_np_maximum_Val:
  "fold np_maximum (map Val rs) (Val r) = Val (fold max rs r)"
  by (induction rs arbitrary: r) (simp_all add: max.commute)


lemma np_minimum_Val_iff:
  "np_minimum x y = Val m \<Longrightarrow> x \<noteq> NaN \<and> x \<noteq> NegInf \<and> y \<noteq> NaN \<and> y \<noteq> NegInf"
  by (cases x; cases y) auto




lemma amin_Val: "concat B \<noteq> [] \<Longrightarrow> amin (map (map Val) B) = Inr (Val (Min (set (concat B))))"
  by (cases "concat B") (simp_all add: amin_def map_concat [symmetric] fold_np_minimum_Val Min.set_eq_fold [symmetric] del: map_concat)

lemma amax_Val: "concat B \<noteq> [] \<Longrightarrow> amax (map (map Val) B) = Inr (Val (Max (set (concat B))))"
  by (cases "concat B") (simp_all add: amax_def map_concat [symmetric] fold_np_maximum_Val Max.set_eq_fold [symmetric] del: map_concat)


lemma normalize_band_Val:
  assumes "concat B \<noteq> []"
  shows "normalize_band (map (map Val) B) =
    Inr (map (map (\<lambda>x. np_divide (Val (x - Min (set (concat B))))
        (Val (Max (set (concat B)) - Min (set (concat B)))))) B)"
  using assms by (simp add: normalize_band_def ebind_def amin_Val amax_Val comp_def)




text \<open>
  Claim C3. For every constant band grid (its maximum equals its minimum, \<open>c\<close>), both
  reductions return \<open>c\<close>, the divisor \<^verbatim>\<open>band_max - band_min\<close> is zero, and
  \<^verbatim>\<open>normalize_band\<close> has no special case for it: it returns normally, and every
  sample of its result is the outcome of the division \<open>0 / 0\<close>, which is NaN.
\<close>

theorem normalize_band_constant:
  fixes B :: grid
  assumes "concat B \<noteq> []" and "Min (set (concat B)) = Max (set (concat B))"
  shows "\<exists>c. amin (map (map Val) B) = Inr (Val c) \<and> amax (map (map Val) B) = Inr (Val c) \<and>
     np_subtract (Val c) (Val c) = Val 0 \<and>
     normalize_band (map (map Val) B) = Inr (map (map (\<lambda>x. np_divide (Val 0) (Val 0))) B) \<and>
     np_divide (Val 0) (Val 0) = NaN"
proof -
  let ?c = "Min (set (concat B))"
  have mem: "x = ?c" if "x \<in> set (concat B)" for x
  proof -
    from that have "?c \<le> x" "x \<le> Max (set (concat B))" by simp_all
    with assms(2) show ?thesis by simp
  qed
  have pt: "np_divide (Val (x - ?c)) (Val (Max (set (concat B)) - ?c)) = np_divide (Val 0) (Val 0)"
    if "x \<in> set (concat B)" for x
  proof -
    from mem [OF that] have "x - ?c = 0" by simp
    moreover from assms(2) have "Max (set (concat B)) - ?c = 0" by simp
    ultimately show ?thesis by (simp only:)
  qed
  have "map (map (\<lambda>x. np_divide (Val (x - ?c)) (Val (Max (set (concat B)) - ?c)))) B
      = map (map (\<lambda>x. np_divide (Val 0) (Val 0))) B"
    by (intro map_cong refl pt) auto
  with normalize_band_Val [OF assms(1)]
  have "normalize_band (map (map Val) B) = Inr (map (map (\<lambda>x. np_divide (Val 0) (Val 0))) B)"
    by (simp only:)
  moreover have "amin (map (map Val) B) = Inr (Val ?c)" "amax (map (map Val) B) = Inr (Val ?c)"
    using assms by (simp_all add: amin_Val amax_Val)
  ultimately show ?thesis by (intro exI [of _ ?c]) simp
qed

text \<open>
  The hypotheses of C3 hold for the one-row grid \<open>7, 7\<close>, whose normalization is NaN
  at both pixels.
\<close>

theorem normalize_band_constant_witness:
  "concat [[7, 7 :: real]] \<noteq> [] \<and>
   Min (set (concat [[7, 7 :: real]])) = Max (set (concat [[7, 7 :: real]])) \<and>
   normalize_band (map (map Val) [[7, 7]]) = Inr [[NaN, NaN]]"
proof -
  let ?B = "[[7, 7 :: real]]"
  have h1: "concat ?B \<noteq> []" by simp
  have h2: "Min (set (concat ?B)) = Max (set (concat ?B))" by simp
  from normalize_band_constant [OF h1 h2] have "normalize_band (map (map Val) ?B) = Inr [[NaN, NaN]]"
    by auto
  with h1 h2 show ?thesis by blast
qed







section \<open>Stacking and tone mapping, pixel by pixel\<close>

lemma shape_map_map [simp]: "shape (map (map f) B) = shape B"
  by (simp add: shape_def)

lemma np_stack_pixel:
  assumes "np_stack a b c = Inr img"
  shows "shape img = shape a \<and>
    (\<forall>i < length a. \<forall>j < length (a ! i). img ! i ! j = [a ! i ! j, b ! i ! j, c ! i ! j])"
proof -
  from assms have sh: "shape a = shape b" "shape b = shape c"
    and img: "img = map (\<lambda>(ra, rb, rc). map (\<lambda>(x, y, z). [x, y, z]) (zip ra (zip rb rc)))
                  (zip a (zip b c))"
    by (auto simp: np_stack_def split: if_splits)
  from sh have len: "length b = length a" "length c = length a"
    by (metis length_map shape_def)+
  have rows: "length (b ! i) = length (a ! i) \<and> length (c ! i) = length (a ! i)"
    if "i < length a" for i
    using sh that len by (metis nth_map shape_def)
  have "shape img = shape a"
    unfolding shape_def img using len rows
    by (auto intro!: nth_equalityI)
  moreover have "img ! i ! j = [a ! i ! j, b ! i ! j, c ! i ! j]"
    if "i < length a" "j < length (a ! i)" for i j
    using that len rows [OF that(1)] by (simp add: img)
  ultimately show ?thesis by blast
qed

lemma normalize_band_shape:
  "normalize_band b = Inr n \<Longrightarrow> shape n = shape b"
  by (auto simp: normalize_band_def ebind_def shape_def split: sum.splits)

lemma concat_shape:
  "shape A = shape B \<Longrightarrow> concat A \<noteq> [] \<Longrightarrow> concat B \<noteq> []"
proof -
  assume sh: "shape A = shape B" and ne: "concat A \<noteq> []"
  have *: "concat X \<noteq> [] \<longleftrightarrow> (\<exists>n \<in> set (shape X). n \<noteq> 0)" for X :: "'c list list"
    by (auto simp: shape_def)
  from ne have "\<exists>n \<in> set (shape A). n \<noteq> 0" by (simp only: *)
  with sh have "\<exists>n \<in> set (shape B). n \<noteq> 0" by simp
  then show ?thesis by (simp only: *)
qed

lemma normalize_band_total:
  "concat B \<noteq> [] \<Longrightarrow> \<exists>n. normalize_band (map (map Val) B) = Inr n"
  by (simp add: normalize_band_Val)

lemma np_power_Val:
  "0 \<le> c \<Longrightarrow> 0 < p \<Longrightarrow> np_power (Val c) p = Val (c powr p)"
  by (cases "c = 0") (simp_all add: np_power_def)

lemma tone_Val:
  assumes "0 < p"
  shows "np_power (np_clip (np_multiply (Val v) k) 0 1) p = Val ((min 1 (max 0 (v * k))) powr p)"
proof -
  have c: "np_clip (np_multiply (Val v) k) 0 1 = Val (min 1 (max 0 (v * k)))"
    by (simp add: np_clip_def min.commute max.commute)
  have "0 \<le> min 1 (max 0 (v * k))" by simp
  from np_power_Val [OF this assms] c show ?thesis by (simp only:)
qed

lemma tone_spec:
  "np_power (np_clip (np_multiply (Val v) (12 / 10)) 0 1) (1 / (22 / 10)) = Val (spec_tone_map v)"
  unfolding spec_tone_map_def by (rule tone_Val) simp

lemma spec_tone_map_range: "0 \<le> spec_tone_map v \<and> spec_tone_map v \<le> 1"
  unfolding spec_tone_map_def by (intro conjI powr_ge_zero powr_le1) simp_all

lemma normalize_band_spec:
  assumes "concat B \<noteq> []" and "Min (set (concat B)) < Max (set (concat B))"
  shows "normalize_band (map (map Val) B) = Inr (map (map (\<lambda>x. Val (spec_normalize B x))) B)"
  using assms by (simp add: normalize_band_Val spec_normalize_def)

text \<open>
  The true-color path on a raster whose blue, green and red bands each have a maximum
  above their minimum: the renderer returns, and pixel \<open>(i, j)\<close> of the array it saves
  is the triple of the tone-mapped, min-max scaled red, green and blue samples, as the
  specification words it; each of the three lies in \<open>[0, 1]\<close>.
\<close>

lemma true_color_nondegenerate:
  assumes len: "3 \<le> length src"
    and sh: "shape (src ! 2) = shape (src ! 1)" "shape (src ! 1) = shape (src ! 0)"
    and nd: "\<forall>k < 3. concat (src ! k) \<noteq> [] \<and>
               Min (set (concat (src ! k))) < Max (set (concat (src ! k)))"
  shows "\<exists>img. true_color src = Inr img \<and> shape img = shape (src ! 2) \<and>
     (\<forall>i < length (src ! 2). \<forall>j < length (src ! 2 ! i).
        img ! i ! j =
          [Val (spec_tone_map (spec_normalize (src ! 2) (src ! 2 ! i ! j))),
           Val (spec_tone_map (spec_normalize (src ! 1) (src ! 1 ! i ! j))),
           Val (spec_tone_map (spec_normalize (src ! 0) (src ! 0 ! i ! j)))])"
proof -
  let ?n = "\<lambda>k. map (map (\<lambda>x. Val (spec_normalize (src ! k) x))) (src ! k)"
  have n: "normalize_band (map (map Val) (src ! k)) = Inr (?n k)" if "k < 3" for k
    using nd that by (intro normalize_band_spec) auto
  have "shape (?n 2) = shape (?n 1)" "shape (?n 1) = shape (?n 0)"
    using sh by simp_all
  then obtain rgb where st: "np_stack (?n 2) (?n 1) (?n 0) = Inr rgb"
    by (auto simp: np_stack_def)
  define out where
    "out = map (map (map (\<lambda>x. np_power (np_clip (np_multiply x (12 / 10)) 0 1) (1 / (22 / 10))))) rgb"
  have ab: "apply_brightness_gamma rgb (Some (12 / 10)) (Some (22 / 10)) = Inr out"
    by (simp add: apply_brightness_gamma_def out_def comp_def)
  from len n [of 0] n [of 1] n [of 2] st ab have tc: "true_color src = Inr out"
    by (simp add: true_color_def read_def ebind_def)
  from np_stack_pixel [OF st]
  have shr: "shape rgb = shape (src ! 2)"
    and px: "\<And>i j. i < length (src ! 2) \<Longrightarrow> j < length (src ! 2 ! i) \<Longrightarrow>
       rgb ! i ! j = [?n 2 ! i ! j, ?n 1 ! i ! j, ?n 0 ! i ! j]"
    by simp_all
  have sho: "shape out = shape (src ! 2)"
    using shr by (simp add: out_def)
  have l1: "length (src ! 1) = length (src ! 2)" and l0: "length (src ! 0) = length (src ! 2)"
    using sh by (metis length_map shape_def)+
  have "out ! i ! j =
          [Val (spec_tone_map (spec_normalize (src ! 2) (src ! 2 ! i ! j))),
           Val (spec_tone_map (spec_normalize (src ! 1) (src ! 1 ! i ! j))),
           Val (spec_tone_map (spec_normalize (src ! 0) (src ! 0 ! i ! j)))]"
    if ij: "i < length (src ! 2)" "j < length (src ! 2 ! i)" for i j
  proof -
    from sh ij l1 l0 have r1: "length (src ! 1 ! i) = length (src ! 2 ! i)"
      and r0: "length (src ! 0 ! i) = length (src ! 2 ! i)"
      by (metis nth_map shape_def)+
    from shr have lr: "length rgb = length (src ! 2)" by (metis length_map shape_def)
    from shr ij lr have lri: "length (rgb ! i) = length (src ! 2 ! i)" by (metis nth_map shape_def)
    have "out ! i ! j = map (\<lambda>x. np_power (np_clip (np_multiply x (12 / 10)) 0 1) (1 / (22 / 10))) (rgb ! i ! j)"
      using ij lr lri by (simp add: out_def)
    also have "rgb ! i ! j = [?n 2 ! i ! j, ?n 1 ! i ! j, ?n 0 ! i ! j]"
      by (rule px [OF ij])
    also have "?n 2 ! i ! j = Val (spec_normalize (src ! 2) (src ! 2 ! i ! j))"
      using ij by simp
    also have "?n 1 ! i ! j = Val (spec_normalize (src ! 1) (src ! 1 ! i ! j))"
      using ij l1 r1 by simp
    also have "?n 0 ! i ! j = Val (spec_normalize (src ! 0) (src ! 0 ! i ! j))"
      using ij l0 r0 by simp
    finally show ?thesis
      by (simp only: list.map tone_spec)
  qed
  with tc sho show ?thesis by blast
qed

text \<open>
  Claim C1, at a raster the renderer can receive: five bands of one row and two pixels,
  the blue band (stack position 1) constant. The true-color path returns normally, and
  the blue channel of both pixels of the array it saves is NaN, which is no value of
  \<open>[0, 1]\<close>: the division \<open>0 / 0\<close> of \<^verbatim>\<open>normalize_band\<close> is neither guarded nor
  repaired by the clipping.
\<close>

theorem true_color_constant_band:
  "true_color [[[5, 5]], [[1, 2]], [[3, 4]], [[0, 1]], [[0, 1]]]
     = Inr [[[Val 0, Val 0, NaN], [Val 1, Val 1, NaN]]]"
  by (simp add: true_color_def read_def normalize_band_def ebind_def amin_def amax_def
      np_stack_def shape_def apply_brightness_gamma_def np_clip_def np_power_def)

text \<open>
  Claim C5. For every raster of at least four bands whose bands at positions 2, 3 and 4
  have one shape and at least one pixel, the false-color path returns an image of that
  shape whose pixel \<open>(i, j)\<close> is the triple of the samples at \<open>(i, j)\<close> of the
  normalized bands 4 (NIR), 3 (red) and 2 (green), each normalized on its own: the
  samples are those \<^verbatim>\<open>normalize_band\<close> returned, with no scaling, clipping or power
  applied to them.
\<close>

theorem false_color_composite:
  assumes "4 \<le> length src"
    and "shape (src ! 1) = shape (src ! 2)" and "shape (src ! 2) = shape (src ! 3)"
    and "concat (src ! 1) \<noteq> []"
  shows "\<exists>img nirN redN greenN.
    false_color src = Inr img \<and>
    normalize_band (map (map Val) (src ! 3)) = Inr nirN \<and>
    normalize_band (map (map Val) (src ! 2)) = Inr redN \<and>
    normalize_band (map (map Val) (src ! 1)) = Inr greenN \<and>
    shape img = shape (src ! 3) \<and>
    (\<forall>i < length (src ! 3). \<forall>j < length (src ! 3 ! i).
       img ! i ! j = [nirN ! i ! j, redN ! i ! j, greenN ! i ! j])"
proof -
  have ne1: "concat (src ! 1) \<noteq> []" by (rule assms(4))
  have ne2: "concat (src ! 2) \<noteq> []" by (rule concat_shape [OF assms(2) ne1])
  have ne3: "concat (src ! 3) \<noteq> []" by (rule concat_shape [OF assms(3) ne2])
  note ne = ne1 ne2 ne3
  from ne obtain nirN redN greenN where
    n: "normalize_band (map (map Val) (src ! 3)) = Inr nirN"
       "normalize_band (map (map Val) (src ! 2)) = Inr redN"
       "normalize_band (map (map Val) (src ! 1)) = Inr greenN"
    using normalize_band_total by blast
  from n have sh: "shape nirN = shape (src ! 3)" "shape redN = shape (src ! 2)"
      "shape greenN = shape (src ! 1)"
    by (auto dest: normalize_band_shape)
  with assms obtain img where st: "np_stack nirN redN greenN = Inr img"
    by (auto simp: np_stack_def)
  from assms(1) n st have fc: "false_color src = Inr img"
    by (simp add: false_color_def read_def ebind_def)
  from sh(1) have len: "length nirN = length (src ! 3)"
     and rows: "\<And>i. i < length (src ! 3) \<Longrightarrow> length (nirN ! i) = length (src ! 3 ! i)"
    by (metis length_map shape_def, metis length_map nth_map shape_def)
  from np_stack_pixel [OF st] sh(1) len rows
  have "shape img = shape (src ! 3) \<and> (\<forall>i < length (src ! 3). \<forall>j < length (src ! 3 ! i).
       img ! i ! j = [nirN ! i ! j, redN ! i ! j, greenN ! i ! j])"
    by simp
  with fc n show ?thesis by blast
qed

text \<open>
  The hypotheses of C5 hold for a raster of four bands of one row and two pixels; its
  false-color image holds the normalized NIR, red and green samples.
\<close>

theorem false_color_composite_witness:
  "4 \<le> length [[[0, 1]], [[1, 3]], [[2, 4]], [[5, 9 :: real]]] \<and>
   shape ([[[0, 1]], [[1, 3]], [[2, 4]], [[5, 9 :: real]]] ! 1)
     = shape ([[[0, 1]], [[1, 3]], [[2, 4]], [[5, 9 :: real]]] ! 2) \<and>
   shape ([[[0, 1]], [[1, 3]], [[2, 4]], [[5, 9 :: real]]] ! 2)
     = shape ([[[0, 1]], [[1, 3]], [[2, 4]], [[5, 9 :: real]]] ! 3) \<and>
   concat ([[[0, 1]], [[1, 3]], [[2, 4]], [[5, 9 :: real]]] ! 1) \<noteq> [] \<and>
   (\<exists>img. false_color [[[0, 1]], [[1, 3]], [[2, 4]], [[5, 9]]] = Inr img \<and>
      img ! 0 ! 0 = [Val 0, Val 0, Val 0] \<and> img ! 0 ! 1 = [Val 1, Val 1, Val 1])"
proof -
  let ?src = "[[[0, 1]], [[1, 3]], [[2, 4]], [[5, 9 :: real]]]"
  have h1: "4 \<le> length ?src" by simp
  have h2: "shape (?src ! 1) = shape (?src ! 2)" by (simp add: shape_def)
  have h3: "shape (?src ! 2) = shape (?src ! 3)" by (simp add: shape_def)
  have h4: "concat (?src ! 1) \<noteq> []" by simp
  from false_color_composite [OF h1 h2 h3 h4] obtain img nirN redN greenN where
    fc: "false_color ?src = Inr img"
    and n: "normalize_band (map (map Val) (?src ! 3)) = Inr nirN"
       "normalize_band (map (map Val) (?src ! 2)) = Inr redN"
       "normalize_band (map (map Val) (?src ! 1)) = Inr greenN"
    and px: "\<forall>i < length (?src ! 3). \<forall>j < length (?src ! 3 ! i).
       img ! i ! j = [nirN ! i ! j, redN ! i ! j, greenN ! i ! j]"
    by blast
  from n have v: "nirN = [[Val 0, Val 1]]" "redN = [[Val 0, Val 1]]" "greenN = [[Val 0, Val 1]]"
    by (simp_all add: normalize_band_def ebind_def amin_def amax_def)
  from px [rule_format, of 0 0] v have a: "img ! 0 ! 0 = [Val 0, Val 0, Val 0]" by simp
  from px [rule_format, of 0 1] v have b: "img ! 0 ! 1 = [Val 1, Val 1, Val 1]" by simp
  from h1 h2 h3 h4 fc a b show ?thesis by blast
qed





section \<open>The compositor's loop body, the names of the images, the viewer\<close>

lemma find_bands_eq:
  "find_bands dir month_folder bs (band_paths, w) =
     (band_paths @ filter (\<lambda>b. map_of dir b \<noteq> None) bs,
      w\<lparr>stdout := stdout w @ map (\<lambda>b. ''Warning: '' @ b @ '' not found in '' @ month_folder) (filter (\<lambda>b. map_of dir b = None) bs)\<rparr>)"
  by (induction bs arbitrary: band_paths w) (simp_all add: print_def)

lemma length_bands [simp]: "length bands = 5"
  by (simp add: bands_def)

lemma missing_band_length:
  assumes "b \<in> set bs" and "map_of dir b = None"
  shows "length (filter (\<lambda>b. map_of dir b \<noteq> None) bs) \<noteq> length bs"
  using length_filter_less [of b bs "\<lambda>b. map_of dir b \<noteq> None"] assms by simp

text \<open>
  Claim C4. For every month folder in which at least one of the five band files is
  missing, the body of the compositor's loop returns normally (it raises nothing), writes
  nothing into \<^verbatim>\<open>Results\<close> nor into the image folders, and prints one warning for
  each missing band file, naming it, followed by the line that the month is skipped; the
  loop then goes on with the remaining month folders from that state.
\<close>

theorem stack_month_skips_missing:
  assumes "map_of (sentinel w) month_folder = Some (MonthDir dir)"
    and "b \<in> set bands" and "map_of dir b = None"
  shows "\<exists>w'. stack_month script_dir month_folder w = Inr w' \<and>
     sentinel w' = sentinel w \<and> results w' = results w \<and>
     rgb_dir w' = rgb_dir w \<and> falsecolor_dir w' = falsecolor_dir w \<and>
     stdout w' = stdout w
        @ map (\<lambda>b. ''Warning: '' @ b @ '' not found in '' @ month_folder) (filter (\<lambda>b. map_of dir b = None) bands)
        @ [''Skipping '' @ month_folder @ '' due to missing bands''] \<and>
     (''Warning: '' @ b @ '' not found in '' @ month_folder) \<in> set (stdout w') \<and>
     for_each (stack_month script_dir) (month_folder # rest) w
       = for_each (stack_month script_dir) rest w'"
proof -
  let ?w' = "w\<lparr>stdout := stdout w
        @ map (\<lambda>b. ''Warning: '' @ b @ '' not found in '' @ month_folder) (filter (\<lambda>b. map_of dir b = None) bands)
        @ [''Skipping '' @ month_folder @ '' due to missing bands'']\<rparr>"
  from missing_band_length [OF assms(2,3)]
  have len: "length (filter (\<lambda>b. map_of dir b \<noteq> None) bands) \<noteq> 5" by simp
  have st: "stack_month script_dir month_folder w = Inr ?w'"
    using assms(1) len by (simp add: stack_month_def find_bands_eq print_def)
  have "(''Warning: '' @ b @ '' not found in '' @ month_folder) \<in> set (stdout ?w')"
    using assms(2,3) by simp
  moreover have "for_each (stack_month script_dir) (month_folder # rest) w
       = for_each (stack_month script_dir) rest ?w'"
    by (simp add: st ebind_def)
  ultimately show ?thesis using st by (intro exI [of _ ?w']) simp
qed




text \<open>
  The hypotheses of C4 hold for a folder \<^verbatim>\<open>April\<close> that holds \<^verbatim>\<open>B2.jp2\<close> only:
  four warnings and the skip line are printed, and no raster is written.
\<close>

theorem stack_month_skips_missing_witness:
  "map_of (sentinel \<lparr>sentinel = [(''April'', MonthDir [(''B2.jp2'', Jp2 [[1]])])], results = [],
        rgb_dir = [], falsecolor_dir = [], stdout = []\<rparr>) ''April''
     = Some (MonthDir [(''B2.jp2'', Jp2 [[1]])]) \<and>
   ''B3.jp2'' \<in> set bands \<and>
   map_of [(''B2.jp2'', Jp2 [[1]])] ''B3.jp2'' = None \<and>
   (\<exists>w'. stack_month ''/app'' ''April''
        \<lparr>sentinel = [(''April'', MonthDir [(''B2.jp2'', Jp2 [[1]])])], results = [],
         rgb_dir = [], falsecolor_dir = [], stdout = []\<rparr> = Inr w' \<and>
      results w' = [] \<and>
      stdout w' = [''Warning: B3.jp2 not found in April'', ''Warning: B4.jp2 not found in April'',
        ''Warning: B8.jp2 not found in April'', ''Warning: B11.jp2 not found in April'',
        ''Skipping April due to missing bands''])"
proof -
  let ?dir = "[(''B2.jp2'', Jp2 [[1]])]"
  let ?w = "\<lparr>sentinel = [(''April'', MonthDir ?dir)], results = [],
        rgb_dir = [], falsecolor_dir = [], stdout = []\<rparr>"
  have h1: "map_of (sentinel ?w) ''April'' = Some (MonthDir ?dir)" by simp
  have h2: "''B3.jp2'' \<in> set bands" by (simp add: bands_def)
  have h3: "map_of ?dir ''B3.jp2'' = None" by simp
  from stack_month_skips_missing [OF h1 h2 h3, of "''/app''" "[]"] obtain w' where
    "stack_month ''/app'' ''April'' ?w = Inr w'" "results w' = results ?w"
    "stdout w' = stdout ?w
        @ map (\<lambda>b. ''Warning: '' @ b @ '' not found in '' @ ''April'') (filter (\<lambda>b. map_of ?dir b = None) bands)
        @ [''Skipping April due to missing bands'']"
    by auto
  then have "stack_month ''/app'' ''April'' ?w = Inr w' \<and> results w' = [] \<and>
      stdout w' = [''Warning: B3.jp2 not found in April'', ''Warning: B4.jp2 not found in April'',
        ''Warning: B8.jp2 not found in April'', ''Warning: B11.jp2 not found in April'',
        ''Skipping April due to missing bands'']"
    by (simp add: bands_def)
  with h1 h2 h3 show ?thesis by blast
qed





lemma endswith_tif [simp]: "endswith (month @ ''.tif'') ''.tif''"
  by (simp add: endswith_def suffix_def)





lemma length_month_names [simp]: "length month_names = 12"
  by (simp add: month_names_def)




section \<open>Running the pipeline again\<close>















lemma print_fields [simp]:
  "sentinel (print l w) = sentinel w" "results (print l w) = results w"
  "rgb_dir (print l w) = rgb_dir w" "falsecolor_dir (print l w) = falsecolor_dir w"
  by (simp_all add: print_def)



end
